theory Spec2Isabelle
  imports Main "HOL-Library.Sublist" "HOL-Library.Multiset"
begin

section \<open>The persisted schema (supabase migration)\<close>

text \<open>
  UUID columns are opaque identifiers; the client handles them as strings.
  A \<open>TIMESTAMP WITH TIME ZONE\<close> is an instant, counted here in milliseconds
  since the epoch (the unit of \<open>Date.now()\<close>).
\<close>

type_synonym uuid = string
type_synonym timestamptz = int

text \<open>\<open>CREATE TYPE public.app_role AS ENUM ('student', 'teacher', 'admin')\<close>\<close>

datatype app_role = student | teacher | admin

text \<open>Table \<open>public.user_roles\<close>.\<close>

record user_roles_row =
  ur_id :: uuid
  user_id :: uuid
  role :: app_role
  ur_created_at :: timestamptz

text \<open>Table \<open>public.profiles\<close>.\<close>

record profiles_row =
  pr_id :: uuid
  pr_user_id :: uuid
  full_name :: "string option"
  avatar_url :: "string option"
  pr_created_at :: timestamptz
  pr_updated_at :: timestamptz

text \<open>Table \<open>public.categories\<close>.\<close>

record categories_row =
  cat_id :: uuid
  cat_name :: string
  cat_description :: "string option"
  cat_created_at :: timestamptz

text \<open>
  Table \<open>public.resources\<close>. Columns without \<open>NOT NULL\<close> are options; this
  includes the two counters, which are \<open>INTEGER DEFAULT 0\<close>.
\<close>

record resources_row =
  res_id :: uuid
  title :: string
  description :: "string option"
  category_id :: "uuid option"
  file_url :: string
  file_type :: string
  file_size :: "int option"
  uploaded_by :: uuid
  view_count :: "int option"
  download_count :: "int option"
  created_at :: timestamptz
  updated_at :: timestamptz

text \<open>Table \<open>public.resource_views\<close>.\<close>

record resource_views_row =
  rv_id :: uuid
  rv_resource_id :: uuid
  rv_user_id :: "uuid option"
  viewed_at :: timestamptz

text \<open>
  The database: the five tables, in row order, and the object paths stored in the
  \<open>learning-resources\<close> bucket.
\<close>

record database =
  user_roles :: "user_roles_row list"
  profiles :: "profiles_row list"
  categories :: "categories_row list"
  resources :: "resources_row list"
  resource_views :: "resource_views_row list"
  storage_objects :: "string list"

section \<open>Role membership\<close>

text \<open>
  \<^verbatim>\<open>
  CREATE OR REPLACE FUNCTION public.has_role(_user_id UUID, _role app_role)
  RETURNS BOOLEAN ... SECURITY DEFINER
  AS $$ SELECT EXISTS (SELECT 1 FROM public.user_roles
                       WHERE user_id = _user_id AND role = _role) $$;
  \<close>
  The function runs with definer rights, so it scans the whole table whoever asks.
\<close>

fun has_role_scan :: "user_roles_row list \<Rightarrow> uuid \<Rightarrow> app_role \<Rightarrow> bool" where
  "has_role_scan [] q_user_id q_role = False"
| "has_role_scan (row # rows) q_user_id q_role =
     (if user_id row = q_user_id \<and> role row = q_role then True
      else has_role_scan rows q_user_id q_role)"

definition has_role :: "database \<Rightarrow> uuid \<Rightarrow> app_role \<Rightarrow> bool" where
  "has_role db q_user_id q_role = has_role_scan (user_roles db) q_user_id q_role"

text \<open>
  \<open>auth.uid()\<close> is \<open>NULL\<close> for a request without a session; \<open>user_id = NULL\<close>
  selects no row, so \<open>has_role(auth.uid(), r)\<close> is false then.
\<close>

definition auth_has_role :: "database \<Rightarrow> uuid option \<Rightarrow> app_role \<Rightarrow> bool" where
  "auth_has_role db uid q_role =
     (case uid of None \<Rightarrow> False | Some u \<Rightarrow> has_role db u q_role)"

text \<open>
  The foreign key \<open>user_roles.user_id REFERENCES auth.users(id)\<close>: every role row
  belongs to an existing principal.
\<close>

definition user_roles_fk :: "uuid set \<Rightarrow> database \<Rightarrow> bool" where
  "user_roles_fk principals db = (\<forall>row \<in> set (user_roles db). user_id row \<in> principals)"

section \<open>Row-level security policies\<close>

text \<open>
  Every policy below is declared \<open>TO authenticated\<close>: it serves a request only when
  \<open>auth.uid()\<close> is present. A comparison with a \<open>NULL\<close> \<open>auth.uid()\<close> is not true.
\<close>

text \<open>\<open>"Users can create own views"\<close>: \<open>WITH CHECK (auth.uid() = user_id)\<close>.\<close>

definition users_can_create_own_views :: "uuid option \<Rightarrow> resource_views_row \<Rightarrow> bool" where
  "users_can_create_own_views uid new =
     (case uid of None \<Rightarrow> False | Some u \<Rightarrow> rv_user_id new = Some u)"

text \<open>
  \<open>"Teachers and admins can view analytics"\<close>, \<open>"Teachers can create resources"\<close>,
  \<open>"Teachers and admins can manage categories"\<close> and the storage policy
  \<open>"Teachers can upload learning resources"\<close> share the predicate
  \<open>has_role(auth.uid(), 'teacher') OR has_role(auth.uid(), 'admin')\<close>.
\<close>

definition teacher_or_admin :: "database \<Rightarrow> uuid option \<Rightarrow> bool" where
  "teacher_or_admin db uid = (auth_has_role db uid teacher \<or> auth_has_role db uid admin)"

text \<open>
  \<open>"Teachers can update own resources"\<close> and \<open>"Teachers can delete own resources"\<close>:
  \<open>USING (auth.uid() = uploaded_by OR has_role(auth.uid(), 'admin'))\<close>.
\<close>

definition owner_or_admin :: "database \<Rightarrow> uuid option \<Rightarrow> 'a resources_row_scheme \<Rightarrow> bool" where
  "owner_or_admin db uid row =
     (case uid of None \<Rightarrow> False | Some u \<Rightarrow> u = uploaded_by row \<or> has_role db u admin)"

section \<open>Statements against the tables\<close>

datatype error =
  row_level_security
  | foreign_key_violation
  | unique_violation
  | numeric_value_out_of_range
  | storage_error

text \<open>
  The handlers of the dashboard await a statement and never look at its error: a
  rejected statement leaves the database as it was and the handler goes on.
\<close>

definition ignore_error :: "database \<Rightarrow> error + database \<Rightarrow> database" where
  "ignore_error db res = (case res of Inl e \<Rightarrow> db | Inr db' \<Rightarrow> db')"

text \<open>
  \<open>INSERT INTO resource_views (resource_id, user_id)\<close>: \<open>id\<close> and \<open>viewed_at\<close> take
  their defaults \<open>gen_random_uuid()\<close> and \<open>now()\<close>, supplied here by the caller.
  The row must pass the insert policy, reference an existing resource and have a fresh
  primary key.
\<close>

definition insert_resource_views ::
  "database \<Rightarrow> uuid option \<Rightarrow> uuid \<Rightarrow> timestamptz \<Rightarrow> uuid \<Rightarrow> uuid option \<Rightarrow> error + database" where
  "insert_resource_views db uid new_id now rid usr =
     (let new = \<lparr>rv_id = new_id, rv_resource_id = rid, rv_user_id = usr, viewed_at = now\<rparr> in
      if \<not> users_can_create_own_views uid new then Inl row_level_security
      else if rid \<notin> set (map res_id (resources db)) then Inl foreign_key_violation
      else if new_id \<in> set (map rv_id (resource_views db)) then Inl unique_violation
      else Inr (db\<lparr>resource_views := resource_views db @ [new]\<rparr>))"

text \<open>
  \<^verbatim>\<open>
  CREATE FUNCTION public.update_updated_at_column() ...
    NEW.updated_at = now(); RETURN NEW;
  CREATE TRIGGER update_resources_updated_at BEFORE UPDATE ON public.resources
    FOR EACH ROW EXECUTE FUNCTION public.update_updated_at_column();
  \<close>
\<close>

definition update_updated_at_column :: "timestamptz \<Rightarrow> resources_row \<Rightarrow> resources_row" where
  "update_updated_at_column now new = new\<lparr>updated_at := now\<rparr>"

text \<open>The counters are \<open>INTEGER\<close> columns: a value outside 32 bits is refused.\<close>

definition int4 :: "int option \<Rightarrow> bool" where
  "int4 v = (case v of None \<Rightarrow> True | Some n \<Rightarrow> - 2147483648 \<le> n \<and> n \<le> 2147483647)"

text \<open>
  \<open>UPDATE resources SET ... WHERE ...\<close>: the statement touches the rows that satisfy
  its \<open>WHERE\<close> clause and the \<open>USING\<close> clause of the update policy; a row the policy
  hides is skipped without an error. Each touched row passes through the trigger.
\<close>

definition update_resources ::
  "database \<Rightarrow> uuid option \<Rightarrow> timestamptz \<Rightarrow> (resources_row \<Rightarrow> resources_row) \<Rightarrow>
   (resources_row \<Rightarrow> bool) \<Rightarrow> error + database" where
  "update_resources db uid now vals whr =
     (let rows' = map (\<lambda>r. if whr r \<and> owner_or_admin db uid r
                            then update_updated_at_column now (vals r) else r) (resources db)
      in if list_all (\<lambda>r. int4 (view_count r) \<and> int4 (download_count r)) rows'
         then Inr (db\<lparr>resources := rows'\<rparr>)
         else Inl numeric_value_out_of_range)"

section \<open>Dashboard: the resource listing\<close>

text \<open>
  The \<open>Resource\<close> interface of the dashboard: a row of \<open>resources\<close> together with the
  joined \<open>categories: { name } | null\<close> and \<open>profiles: { full_name } | null\<close>.
\<close>

record Resource = resources_row +
  r_categories :: "string option"
  r_profiles :: "string option option"

text \<open>\<open>.single()\<close> yields data only when exactly one row matches.\<close>

fun single :: "'a list \<Rightarrow> 'a option" where
  "single [x] = Some x"
| "single xs = None"

text \<open>
  The object built per row by \<open>fetchResources\<close>:
  \<open>{ ...resource, categories: categoryData.data, profiles: profileData.data }\<close>,
  where the category is looked up only for a present \<open>category_id\<close>.
\<close>

definition enrich :: "database \<Rightarrow> resources_row \<Rightarrow> Resource" where
  "enrich db resource =
     \<lparr>res_id = res_id resource, title = title resource, description = description resource,
      category_id = category_id resource, file_url = file_url resource,
      file_type = file_type resource, file_size = file_size resource,
      uploaded_by = uploaded_by resource, view_count = view_count resource,
      download_count = download_count resource, created_at = created_at resource,
      updated_at = updated_at resource,
      r_categories =
        (case category_id resource of
           None \<Rightarrow> None
         | Some cid \<Rightarrow> single (map cat_name (filter (\<lambda>c. cat_id c = cid) (categories db)))),
      r_profiles =
        single (map full_name (filter (\<lambda>p. pr_user_id p = uploaded_by resource) (profiles db)))\<rparr>"

text \<open>
  \<open>fetchResources\<close>: \<open>select("*").order("created_at", { ascending: false })\<close>, then the
  enrichment of every row. The select policies of \<open>resources\<close>, \<open>categories\<close> and
  \<open>profiles\<close> show every row to an authenticated request and none to any other.
  Rows with equal \<open>created_at\<close> come in table order.
\<close>

definition fetchResources :: "database \<Rightarrow> uuid option \<Rightarrow> Resource list" where
  "fetchResources db uid =
     (if uid = None then []
      else map (enrich db) (sort_key (\<lambda>r. - created_at r) (resources db)))"

text \<open>\<open>String.prototype.includes\<close>: the argument occurs at some position.\<close>

fun includes_js :: "string \<Rightarrow> string \<Rightarrow> bool" where
  "includes_js [] t = (t = [])"
| "includes_js (c # s) t = (prefix t (c # s) \<or> includes_js s t)"

text \<open>
  \<^verbatim>\<open>
  const filteredResources = resources.filter((resource) => {
    const matchesSearch = resource.title.toLowerCase().includes(searchQuery.toLowerCase()) ||
                          resource.description?.toLowerCase().includes(searchQuery.toLowerCase());
    const matchesCategory = selectedCategory === "all" || resource.categories?.name === selectedCategory;
    return matchesSearch && matchesCategory;
  });
  \<close>
\<close>

text \<open>
  \<open>String.prototype.toLowerCase\<close> belongs to the browser, not to the repository: the
  filter receives it as the parameter \<open>toLowerCase\<close>, and what is proved of the filter
  holds for every function in its place.
\<close>

definition matchesSearch :: "(string \<Rightarrow> string) \<Rightarrow> string \<Rightarrow> Resource \<Rightarrow> bool" where
  "matchesSearch toLowerCase searchQuery resource =
     (includes_js (toLowerCase (title resource)) (toLowerCase searchQuery) \<or>
      (case description resource of
         None \<Rightarrow> False
       | Some d \<Rightarrow> includes_js (toLowerCase d) (toLowerCase searchQuery)))"

definition matchesCategory :: "string \<Rightarrow> Resource \<Rightarrow> bool" where
  "matchesCategory selectedCategory resource =
     (selectedCategory = ''all'' \<or> r_categories resource = Some selectedCategory)"

definition filteredResources ::
  "(string \<Rightarrow> string) \<Rightarrow> Resource list \<Rightarrow> string \<Rightarrow> string \<Rightarrow> Resource list" where
  "filteredResources toLowerCase rs searchQuery selectedCategory =
     filter (\<lambda>resource. matchesSearch toLowerCase searchQuery resource \<and>
                         matchesCategory selectedCategory resource) rs"

text \<open>The listing shown by the dashboard: the fetched resources through the filter.\<close>

definition listResources ::
  "(string \<Rightarrow> string) \<Rightarrow> database \<Rightarrow> uuid option \<Rightarrow> string \<Rightarrow> string \<Rightarrow> Resource list" where
  "listResources toLowerCase db uid searchQuery selectedCategory =
     filteredResources toLowerCase (fetchResources db uid) searchQuery selectedCategory"

text \<open>The category line of a card: \<open>resource.categories?.name || "Uncategorized"\<close>.\<close>

definition category_label :: "Resource \<Rightarrow> string" where
  "category_label resource =
     (case r_categories resource of
        None \<Rightarrow> ''Uncategorized''
      | Some n \<Rightarrow> if n = [] then ''Uncategorized'' else n)"

section \<open>Dashboard: recording views and downloads\<close>

text \<open>A counter read on the client: \<open>null + 1\<close> is \<open>1\<close> in JavaScript.\<close>

definition js_number :: "int option \<Rightarrow> int" where
  "js_number v = (case v of None \<Rightarrow> 0 | Some n \<Rightarrow> n)"

text \<open>
  \<^verbatim>\<open>
  const handleView = async (resource: Resource) => {
    // Track view
    await supabase.from("resource_views").insert({
      resource_id: resource.id, user_id: user?.id });
    // Increment view count
    await supabase.from("resources")
      .update({ view_count: resource.view_count + 1 }).eq("id", resource.id);
    window.open(resource.file_url, "_blank");
    fetchResources();
  };
  \<close>
  \<open>resource\<close> is the object held by the page since its last \<open>fetchResources\<close>;
  \<open>user\<close> is the session's principal, which is also \<open>auth.uid()\<close> of both
  statements. The two statements are separate requests.
\<close>

definition track_view ::
  "database \<Rightarrow> uuid option \<Rightarrow> uuid \<Rightarrow> timestamptz \<Rightarrow> Resource \<Rightarrow> database" where
  "track_view db user new_id now resource =
     ignore_error db (insert_resource_views db user new_id now (res_id resource) user)"

definition increment_view_count ::
  "database \<Rightarrow> uuid option \<Rightarrow> timestamptz \<Rightarrow> Resource \<Rightarrow> database" where
  "increment_view_count db user now resource =
     ignore_error db
       (update_resources db user now
          (\<lambda>r. r\<lparr>view_count := Some (js_number (view_count resource) + 1)\<rparr>)
          (\<lambda>r. res_id r = res_id resource))"

definition handleView ::
  "database \<Rightarrow> uuid option \<Rightarrow> uuid \<Rightarrow> timestamptz \<Rightarrow> timestamptz \<Rightarrow> Resource \<Rightarrow> database" where
  "handleView db user new_id t_insert t_update resource =
     increment_view_count (track_view db user new_id t_insert resource) user t_update resource"

text \<open>
  \<^verbatim>\<open>
  const handleDownload = async (resource: Resource) => {
    // Increment download count
    await supabase.from("resources")
      .update({ download_count: resource.download_count + 1 }).eq("id", resource.id);
    ...
  };
  \<close>
\<close>

definition handleDownload ::
  "database \<Rightarrow> uuid option \<Rightarrow> timestamptz \<Rightarrow> Resource \<Rightarrow> database" where
  "handleDownload db user now resource =
     ignore_error db
       (update_resources db user now
          (\<lambda>r. r\<lparr>download_count := Some (js_number (download_count resource) + 1)\<rparr>)
          (\<lambda>r. res_id r = res_id resource))"

text \<open>
  Several invocations of \<open>handleView\<close> in flight at once. Each invocation holds the
  \<open>resource\<close> object its page fetched before the click; the database sees the
  statements of all invocations one at a time, in some order. A schedule names, step
  by step, the invocation whose next statement runs.
\<close>

record invocation =
  inv_user :: "uuid option"
  inv_new_id :: uuid
  inv_t_insert :: timestamptz
  inv_t_update :: timestamptz
  inv_resource :: Resource

datatype statement = track nat | increment nat

definition run_statement :: "invocation list \<Rightarrow> database \<Rightarrow> statement \<Rightarrow> database" where
  "run_statement invs db st =
     (case st of
        track i \<Rightarrow>
          (if i < length invs
           then track_view db (inv_user (invs ! i)) (inv_new_id (invs ! i))
                  (inv_t_insert (invs ! i)) (inv_resource (invs ! i))
           else db)
      | increment i \<Rightarrow>
          (if i < length invs
           then increment_view_count db (inv_user (invs ! i)) (inv_t_update (invs ! i))
                  (inv_resource (invs ! i))
           else db))"

definition run_schedule :: "invocation list \<Rightarrow> statement list \<Rightarrow> database \<Rightarrow> database" where
  "run_schedule invs schedule db = foldl (run_statement invs) db schedule"

text \<open>
  A schedule interleaves the invocations when every invocation runs each of its two
  statements once, the insert before the update.
\<close>

definition interleaving :: "nat \<Rightarrow> statement list \<Rightarrow> bool" where
  "interleaving n schedule =
     (distinct schedule \<and>
      set schedule = track ` {..<n} \<union> increment ` {..<n} \<and>
      (\<forall>i < n. \<forall>j < length schedule. \<forall>k < length schedule.
         schedule ! j = track i \<and> schedule ! k = increment i \<longrightarrow> j < k))"

text \<open>The \<open>view_count\<close> stored for a resource id.\<close>

definition view_count_of :: "database \<Rightarrow> uuid \<Rightarrow> int option option" where
  "view_count_of db rid =
     single (map view_count (filter (\<lambda>r. res_id r = rid) (resources db)))"

section \<open>Upload: creating a resource\<close>

text \<open>The parts of a browser \<open>File\<close> that the upload reads.\<close>

record File =
  f_name :: string
  f_type :: string
  f_size :: int

text \<open>
  \<^verbatim>\<open>
  const getFileType = (file: File): string => {
    if (file.type.startsWith("video/")) return "video";
    if (file.type.startsWith("image/")) return "image";
    if (file.type === "application/pdf") return "pdf";
    return "other";
  };
  \<close>
\<close>

definition getFileType :: "File \<Rightarrow> string" where
  "getFileType file =
     (if prefix ''video/'' (f_type file) then ''video''
      else if prefix ''image/'' (f_type file) then ''image''
      else if f_type file = ''application/pdf'' then ''pdf''
      else ''other'')"

text \<open>
  \<open>supabase.storage.from("learning-resources").upload(filePath, file)\<close>: the insert
  policy of the bucket asks for the teacher or admin role, and a path already taken is
  refused.
\<close>

definition storage_upload :: "database \<Rightarrow> uuid option \<Rightarrow> string \<Rightarrow> error + database" where
  "storage_upload db uid path =
     (if \<not> teacher_or_admin db uid then Inl row_level_security
      else if path \<in> set (storage_objects db) then Inl storage_error
      else Inr (db\<lparr>storage_objects := storage_objects db @ [path]\<rparr>))"

text \<open>The public URL of an object of the bucket, relative to the project's host.\<close>

definition getPublicUrl :: "string \<Rightarrow> string" where
  "getPublicUrl path = ''/storage/v1/object/public/learning-resources/'' @ path"

text \<open>
  \<open>INSERT INTO resources (title, description, category_id, file_url, file_type,
  file_size, uploaded_by)\<close>. The omitted columns take their defaults: a generated
  \<open>id\<close>, \<open>view_count\<close> and \<open>download_count\<close> \<open>0\<close>, both timestamps \<open>now()\<close>. The
  row must pass the policy \<open>"Teachers can create resources"\<close>, reference no missing
  category and have a fresh primary key.
\<close>

definition insert_resources ::
  "database \<Rightarrow> uuid option \<Rightarrow> uuid \<Rightarrow> timestamptz \<Rightarrow> string \<Rightarrow> string option \<Rightarrow>
   uuid option \<Rightarrow> string \<Rightarrow> string \<Rightarrow> int option \<Rightarrow> uuid \<Rightarrow> error + database" where
  "insert_resources db uid new_id now ttl descr cat url ftype fsize owner =
     (let new = \<lparr>res_id = new_id, title = ttl, description = descr, category_id = cat,
                  file_url = url, file_type = ftype, file_size = fsize, uploaded_by = owner,
                  view_count = Some 0, download_count = Some 0,
                  created_at = now, updated_at = now\<rparr> in
      if uid = None \<or> \<not> teacher_or_admin db uid then Inl row_level_security
      else if (case cat of None \<Rightarrow> False | Some c \<Rightarrow> c \<notin> set (map cat_id (categories db)))
        then Inl foreign_key_violation
      else if new_id \<in> set (map res_id (resources db)) then Inl unique_violation
      else Inr (db\<lparr>resources := resources db @ [new]\<rparr>))"

datatype toast = Success | Error error

text \<open>
  \<^verbatim>\<open>
  const handleUpload = async (e: React.FormEvent) => {
    if (!file || !user) return;
    try {
      const fileExt = file.name.split(".").pop();
      const fileName = `${Math.random()}.${fileExt}`;
      const filePath = `${user.id}/${fileName}`;
      const { error: uploadError } = await supabase.storage
        .from("learning-resources").upload(filePath, file);
      if (uploadError) throw uploadError;
      const { data: { publicUrl } } = supabase.storage
        .from("learning-resources").getPublicUrl(filePath);
      const { error: insertError } = await supabase.from("resources").insert({
          title, description, category_id: categoryId || null, file_url: publicUrl,
          file_type: getFileType(file), file_size: file.size, uploaded_by: user.id });
      if (insertError) throw insertError;
      toast({ title: "Success", ... });
    } catch (error: any) { toast({ title: "Error", ... }); }
  };
  \<close>
  \<open>random\<close> is the text of \<open>Math.random()\<close>, \<open>new_id\<close> the generated primary key.
  The result is the toast shown, if any, and the database afterwards.
\<close>

definition fileExt :: "string \<Rightarrow> string" where
  "fileExt name = rev (takeWhile (\<lambda>c. c \<noteq> CHR ''.'') (rev name))"

definition handleUpload ::
  "database \<Rightarrow> uuid option \<Rightarrow> File option \<Rightarrow> string \<Rightarrow> string \<Rightarrow> string \<Rightarrow> string \<Rightarrow>
   uuid \<Rightarrow> timestamptz \<Rightarrow> toast option \<times> database" where
  "handleUpload db user file ttl descr categoryId random new_id now =
     (case file of
        None \<Rightarrow> (None, db)
      | Some f \<Rightarrow>
          (case user of
             None \<Rightarrow> (None, db)
           | Some u \<Rightarrow>
               (let fileName = random @ ''.'' @ fileExt (f_name f);
                    filePath = u @ ''/'' @ fileName
                in case storage_upload db user filePath of
                     Inl uploadError \<Rightarrow> (Some (Error uploadError), db)
                   | Inr db1 \<Rightarrow>
                       (case insert_resources db1 user new_id now ttl (Some descr)
                               (if categoryId = [] then None else Some categoryId)
                               (getPublicUrl filePath) (getFileType f) (Some (f_size f)) u of
                          Inl insertError \<Rightarrow> (Some (Error insertError), db1)
                        | Inr db2 \<Rightarrow> (Some Success, db2)))))"

section \<open>Deleting a category\<close>

text \<open>
  \<open>resources.category_id UUID REFERENCES public.categories(id) ON DELETE SET NULL\<close>:
  when a category goes, the referential action updates each referencing resource,
  setting the column to \<open>NULL\<close>. The action is an update of \<open>resources\<close>, so the
  row passes through the \<open>BEFORE UPDATE\<close> trigger; it is not subject to the
  policies.
\<close>

definition on_delete_set_null :: "timestamptz \<Rightarrow> uuid \<Rightarrow> resources_row \<Rightarrow> resources_row" where
  "on_delete_set_null now cid r =
     (if category_id r = Some cid
      then update_updated_at_column now (r\<lparr>category_id := None\<rparr>) else r)"

text \<open>
  \<open>DELETE FROM categories WHERE id = cid\<close> under the policy
  \<open>"Teachers and admins can manage categories"\<close>; a request the policy does not
  serve sees no row to delete.
\<close>

definition delete_category :: "database \<Rightarrow> uuid option \<Rightarrow> timestamptz \<Rightarrow> uuid \<Rightarrow> database" where
  "delete_category db uid now cid =
     (if uid = None \<or> \<not> teacher_or_admin db uid then db
      else if cid \<notin> set (map cat_id (categories db)) then db
      else db\<lparr>categories := filter (\<lambda>c. cat_id c \<noteq> cid) (categories db),
              resources := map (on_delete_set_null now cid) (resources db)\<rparr>)"

section \<open>Analytics: the view trend\<close>

text \<open>
  The rows of \<open>resource_views\<close> that a select returns, under the policy
  \<open>"Teachers and admins can view analytics"\<close>.
\<close>

definition select_resource_views :: "database \<Rightarrow> uuid option \<Rightarrow> resource_views_row list" where
  "select_resource_views db uid =
     (if uid \<noteq> None \<and> teacher_or_admin db uid then resource_views db else [])"

text \<open>
  \<open>new Date(view.viewed_at).toLocaleDateString()\<close> gives the calendar date of an
  instant in the browser's time zone and locale. It belongs to the browser: the
  aggregation receives it as the parameter \<open>toLocaleDateString\<close>, a function from
  instants to dates, and what is proved of the aggregation holds for every such
  function.
\<close>

text \<open>
  \<open>trends[date] = (trends[date] || 0) + 1\<close> on a \<open>Record<string, number>\<close>, whose
  entries keep the order in which the keys were first written.
\<close>

fun bump :: "'k \<Rightarrow> ('k \<times> int) list \<Rightarrow> ('k \<times> int) list" where
  "bump k [] = [(k, 1)]"
| "bump k ((k', n) # kvs) = (if k = k' then (k', n + 1) # kvs else (k', n) # bump k kvs)"

text \<open>
  \<^verbatim>\<open>
  // View trends (last 7 days)
  const { data: viewData } = await supabase.from("resource_views").select("viewed_at")
    .gte("viewed_at", new Date(Date.now() - 7 * 24 * 60 * 60 * 1000).toISOString());
  if (viewData) {
    const trends: Record<string, number> = {};
    viewData.forEach((view) => {
      const date = new Date(view.viewed_at).toLocaleDateString();
      trends[date] = (trends[date] || 0) + 1;
    });
    setViewTrends(Object.entries(trends).map(([date, views]) => ({ date, views })));
  }
  \<close>
\<close>

definition viewData :: "database \<Rightarrow> uuid option \<Rightarrow> timestamptz \<Rightarrow> resource_views_row list" where
  "viewData db uid now =
     filter (\<lambda>view. now - 7 * 24 * 60 * 60 * 1000 \<le> viewed_at view)
       (select_resource_views db uid)"

definition viewTrends ::
  "(timestamptz \<Rightarrow> 'd) \<Rightarrow> database \<Rightarrow> uuid option \<Rightarrow> timestamptz \<Rightarrow> ('d \<times> int) list" where
  "viewTrends toLocaleDateString db uid now =
     foldl (\<lambda>trends view. bump (toLocaleDateString (viewed_at view)) trends) []
       (viewData db uid now)"

section \<open>Route protection\<close>

text \<open>What \<open>useAuth()\<close> hands to a component.\<close>

record auth =
  user :: "uuid option"
  userRole :: "string option"
  loading :: bool

text \<open>What a route element renders: the spinner, a redirect, or its page.\<close>

datatype 'a element = Loader2 | Navigate string | Children 'a

text \<open>
  \<^verbatim>\<open>
  export const ProtectedRoute = ({ children, requireRole }: ProtectedRouteProps) => {
    const { user, userRole, loading } = useAuth();
    if (loading) { return <div ...><Loader2 .../></div>; }
    if (!user) { return <Navigate to="/auth" replace />; }
    if (requireRole && userRole && !requireRole.includes(userRole)) {
      return <Navigate to="/dashboard" replace />;
    }
    return <>{children}</>;
  };
  \<close>
  \<open>requireRole\<close> is optional; an array, even an empty one, is truthy. A role is
  truthy when it is present and not the empty string.
\<close>

definition ProtectedRoute :: "auth \<Rightarrow> 'a \<Rightarrow> string list option \<Rightarrow> 'a element" where
  "ProtectedRoute a children requireRole =
     (if loading a then Loader2
      else if user a = None then Navigate ''/auth''
      else (case requireRole of
              None \<Rightarrow> Children children
            | Some required \<Rightarrow>
                (case userRole a of
                   None \<Rightarrow> Children children
                 | Some r \<Rightarrow>
                     if r \<noteq> [] \<and> r \<notin> set required then Navigate ''/dashboard''
                     else Children children)))"

text \<open>The pages and the \<open>Route\<close> entries of \<open>App\<close>, in the order of the source.\<close>

datatype page = Index | Auth | Dashboard | Upload | Analytics | Users | NotFound

datatype route =
  route_root | route_auth | route_dashboard | route_upload | route_analytics | route_users
  | route_star

definition App :: "auth \<Rightarrow> route \<Rightarrow> page element" where
  "App a r =
     (case r of
        route_root \<Rightarrow> Children Index
      | route_auth \<Rightarrow> Children Auth
      | route_dashboard \<Rightarrow> ProtectedRoute a Dashboard None
      | route_upload \<Rightarrow> ProtectedRoute a Upload (Some [''teacher'', ''admin''])
      | route_analytics \<Rightarrow> ProtectedRoute a Analytics (Some [''teacher'', ''admin''])
      | route_users \<Rightarrow> ProtectedRoute a Users (Some [''admin''])
      | route_star \<Rightarrow> Children NotFound)"

section \<open>Example data\<close>

text \<open>
  A small database: a teacher \<open>T\<close>, a student \<open>S\<close> and an admin \<open>A\<close>, one category
  and one resource uploaded by \<open>T\<close>.
\<close>

definition example_resource :: resources_row where
  "example_resource =
     \<lparr>res_id = ''r1'', title = ''Algebra Basics'', description = Some ''Linear equations'',
      category_id = Some ''c1'', file_url = ''/storage/v1/object/public/learning-resources/T/0.1.pdf'',
      file_type = ''pdf'', file_size = Some 1024, uploaded_by = ''T'',
      view_count = Some 0, download_count = Some 0, created_at = 1, updated_at = 1\<rparr>"

definition example_db :: database where
  "example_db =
     \<lparr>user_roles =
        [\<lparr>ur_id = ''ur1'', user_id = ''T'', role = teacher, ur_created_at = 0\<rparr>,
         \<lparr>ur_id = ''ur2'', user_id = ''S'', role = student, ur_created_at = 0\<rparr>,
         \<lparr>ur_id = ''ur3'', user_id = ''A'', role = admin, ur_created_at = 0\<rparr>],
      profiles =
        [\<lparr>pr_id = ''p1'', pr_user_id = ''T'', full_name = Some ''Tess'', avatar_url = None,
          pr_created_at = 0, pr_updated_at = 0\<rparr>],
      categories =
        [\<lparr>cat_id = ''c1'', cat_name = ''Mathematics'', cat_description = None,
          cat_created_at = 0\<rparr>],
      resources = [example_resource],
      resource_views = [],
      storage_objects = [''T/0.1.pdf'']\<rparr>"

text \<open>The resource as a page holds it after fetching from \<open>example_db\<close>.\<close>

definition example_snapshot :: Resource where
  "example_snapshot = enrich example_db example_resource"

text \<open>Two views of that resource started from two pages holding the same snapshot.\<close>

definition example_invocations :: "invocation list" where
  "example_invocations =
     [\<lparr>inv_user = Some ''T'', inv_new_id = ''v1'', inv_t_insert = 10, inv_t_update = 12,
       inv_resource = example_snapshot\<rparr>,
      \<lparr>inv_user = Some ''A'', inv_new_id = ''v2'', inv_t_insert = 11, inv_t_update = 13,
       inv_resource = example_snapshot\<rparr>]"

text \<open>A file as the upload form holds it.\<close>

definition example_file :: File where
  "example_file = \<lparr>f_name = ''notes.v2.pdf'', f_type = ''application/pdf'', f_size = 2048\<rparr>"

text \<open>
  View events over ten days, one hour being 3600000 ms and one day 86400000 ms: two
  events on day 3 (at 01:00 and at 13:00) and one at 06:00 on each of the days 4 to 10.
\<close>

definition view_at :: "uuid \<Rightarrow> timestamptz \<Rightarrow> resource_views_row" where
  "view_at i t = \<lparr>rv_id = i, rv_resource_id = ''r1'', rv_user_id = Some ''S'', viewed_at = t\<rparr>"

definition ten_days_db :: database where
  "ten_days_db =
     example_db\<lparr>resource_views :=
       [view_at ''e0'' (3 * 86400000 + 3600000),
        view_at ''e1'' (3 * 86400000 + 13 * 3600000),
        view_at ''e2'' (4 * 86400000 + 6 * 3600000),
        view_at ''e3'' (5 * 86400000 + 6 * 3600000),
        view_at ''e4'' (6 * 86400000 + 6 * 3600000),
        view_at ''e5'' (7 * 86400000 + 6 * 3600000),
        view_at ''e6'' (8 * 86400000 + 6 * 3600000),
        view_at ''e7'' (9 * 86400000 + 6 * 3600000),
        view_at ''e8'' (10 * 86400000 + 6 * 3600000)]\<rparr>"

text \<open>
  The calendar date of an instant for a browser whose time zone is UTC, as the number
  of the day counted from 1 January 1970 (day 0).
\<close>

definition utc_date :: "timestamptz \<Rightarrow> int" where
  "utc_date t = t div 86400000"

text \<open>The number of view events of the table that fall on a calendar date.\<close>

definition events_on_date :: "(timestamptz \<Rightarrow> 'd) \<Rightarrow> database \<Rightarrow> 'd \<Rightarrow> nat" where
  "events_on_date toLocaleDateString db d =
     length (filter (\<lambda>v. toLocaleDateString (viewed_at v) = d) (resource_views db))"

text \<open>
  The number of view events on a calendar date that are inside the queried window,
  at or after \<open>now\<close> minus seven times 24 hours.
\<close>

definition window_events_on_date ::
  "(timestamptz \<Rightarrow> 'd) \<Rightarrow> database \<Rightarrow> timestamptz \<Rightarrow> 'd \<Rightarrow> nat" where
  "window_events_on_date toLocaleDateString db now d =
     length (filter (\<lambda>v. now - 7 * 24 * 60 * 60 * 1000 \<le> viewed_at v \<and>
                          toLocaleDateString (viewed_at v) = d) (resource_views db))"

text \<open>
  Lower-casing of text written in ASCII, where the browser's \<open>toLowerCase\<close> maps the
  letters \<open>A\<close> to \<open>Z\<close> to \<open>a\<close> to \<open>z\<close> and keeps every other character.
\<close>

definition ascii_toLowerCase_char :: "char \<Rightarrow> char" where
  "ascii_toLowerCase_char c =
     (case map_of (zip ''ABCDEFGHIJKLMNOPQRSTUVWXYZ'' ''abcdefghijklmnopqrstuvwxyz'') c of
        None \<Rightarrow> c
      | Some l \<Rightarrow> l)"

definition ascii_toLowerCase :: "string \<Rightarrow> string" where
  "ascii_toLowerCase s = map ascii_toLowerCase_char s"

text \<open>
  A catalog of three resources, stored in the order of their ids but created in the
  order \<open>r1\<close>, \<open>r3\<close>, \<open>r2\<close>: one in Mathematics, one in Science without a
  description, one without a category.
\<close>

definition algebra :: resources_row where
  "algebra =
     \<lparr>res_id = ''r1'', title = ''Algebra Basics'', description = Some ''Linear equations'',
      category_id = Some ''c1'', file_url = ''/a.pdf'', file_type = ''pdf'',
      file_size = Some 1024, uploaded_by = ''T'', view_count = Some 0,
      download_count = Some 0, created_at = 1, updated_at = 1\<rparr>"

definition biology :: resources_row where
  "biology =
     \<lparr>res_id = ''r2'', title = ''Cell Biology'', description = None,
      category_id = Some ''c2'', file_url = ''/b.mp4'', file_type = ''video'',
      file_size = Some 4096, uploaded_by = ''T'', view_count = Some 0,
      download_count = Some 0, created_at = 3, updated_at = 3\<rparr>"

definition geometry :: resources_row where
  "geometry =
     \<lparr>res_id = ''r3'', title = ''Geometry'', description = Some ''Uses ALGEBRA'',
      category_id = None, file_url = ''/g.png'', file_type = ''image'',
      file_size = Some 2048, uploaded_by = ''T'', view_count = Some 0,
      download_count = Some 0, created_at = 2, updated_at = 2\<rparr>"

definition listing_db :: database where
  "listing_db =
     example_db\<lparr>categories :=
                  [\<lparr>cat_id = ''c1'', cat_name = ''Mathematics'', cat_description = None,
                    cat_created_at = 0\<rparr>,
                   \<lparr>cat_id = ''c2'', cat_name = ''Science'', cat_description = None,
                    cat_created_at = 0\<rparr>],
                resources := [algebra, biology, geometry]\<rparr>"

section \<open>Evaluation on the example data\<close>

lemmas policy_defs = users_can_create_own_views_def teacher_or_admin_def owner_or_admin_def
  auth_has_role_def has_role_def

lemmas statement_defs = ignore_error_def insert_resource_views_def update_resources_def
  update_updated_at_column_def int4_def js_number_def

lemmas example_defs = example_db_def example_resource_def example_snapshot_def enrich_def

section \<open>The role check\<close>

lemma has_role_scan_iff:
  "has_role_scan rows p r \<longleftrightarrow> (\<exists>row \<in> set rows. user_id row = p \<and> role row = r)"
  by (induction rows) auto

text \<open>
  Claim C1. For every principal \<open>p\<close> and role \<open>r\<close>, \<open>has_role\<close> is true exactly
  when the role store holds a row with \<open>user_id = p\<close> and \<open>role = r\<close>; in particular
  it is false for a \<open>p\<close> that is not a principal at all, since the foreign key leaves
  such a \<open>p\<close> without rows.
\<close>

theorem has_role_iff_assignment_exists:
  "(has_role db p r \<longleftrightarrow> (\<exists>row \<in> set (user_roles db). user_id row = p \<and> role row = r))
   \<and> (user_roles_fk principals db \<and> p \<notin> principals \<longrightarrow> has_role db p r = False)"
  unfolding has_role_def user_roles_fk_def has_role_scan_iff by blast

theorem has_role_witness:
  "has_role example_db ''T'' teacher \<and> \<not> has_role example_db ''T'' admin
   \<and> ''X'' \<notin> {''T'', ''S'', ''A''} \<and> \<not> has_role example_db ''X'' student"
proof -
  have fk: "user_roles_fk {''T'', ''S'', ''A''} example_db"
    by (simp add: example_db_def user_roles_fk_def)
  have rows: "user_roles example_db =
      [\<lparr>ur_id = ''ur1'', user_id = ''T'', role = teacher, ur_created_at = 0\<rparr>,
       \<lparr>ur_id = ''ur2'', user_id = ''S'', role = student, ur_created_at = 0\<rparr>,
       \<lparr>ur_id = ''ur3'', user_id = ''A'', role = admin, ur_created_at = 0\<rparr>]"
    by (simp add: example_db_def)
  show ?thesis
    using has_role_iff_assignment_exists [of example_db "''T''" teacher]
      has_role_iff_assignment_exists [of example_db "''T''" admin]
      has_role_iff_assignment_exists [of example_db "''X''" student "{''T'', ''S'', ''A''}"]
      fk
    by (simp add: rows)
qed

section \<open>Creating a resource\<close>

text \<open>
  Claim C3. An upload by a principal holding neither the teacher nor the admin role
  is rejected and leaves the catalog as it was. An upload by a principal holding the
  teacher or the admin role, with a file chosen, an object path not yet taken, a
  category that is unset or exists, and a fresh row id, succeeds and appends exactly
  one catalog row, owned by the principal, whose \<open>view_count\<close> and \<open>download_count\<close>
  are both 0.
\<close>

theorem createResource_gate:
  "out = handleUpload db (Some p) file ttl descr categoryId random new_id now \<Longrightarrow>
   (\<not> has_role db p teacher \<and> \<not> has_role db p admin \<longrightarrow>
      resources (snd out) = resources db \<and> fst out \<noteq> Some Success)
   \<and> ((has_role db p teacher \<or> has_role db p admin) \<and> file = Some f
       \<and> p @ ''/'' @ random @ ''.'' @ fileExt (f_name f) \<notin> set (storage_objects db)
       \<and> (categoryId = [] \<or> categoryId \<in> set (map cat_id (categories db)))
       \<and> new_id \<notin> set (map res_id (resources db)) \<longrightarrow>
      fst out = Some Success
      \<and> (\<exists>new. resources (snd out) = resources db @ [new] \<and> res_id new = new_id
            \<and> uploaded_by new = p \<and> view_count new = Some 0 \<and> download_count new = Some 0))"
  by (auto simp: handleUpload_def storage_upload_def insert_resources_def teacher_or_admin_def
      auth_has_role_def has_role_def Let_def split: option.splits)

theorem createResource_gate_witness:
  "(\<not> has_role example_db ''S'' teacher \<and> \<not> has_role example_db ''S'' admin
    \<and> resources (snd (handleUpload example_db (Some ''S'') (Some example_file)
          ''Sets'' ''Intro'' ''c1'' ''0.5'' ''r2'' 7)) = resources example_db
    \<and> fst (handleUpload example_db (Some ''S'') (Some example_file)
          ''Sets'' ''Intro'' ''c1'' ''0.5'' ''r2'' 7) \<noteq> Some Success)
   \<and> (has_role example_db ''T'' teacher
    \<and> ''T'' @ ''/'' @ ''0.5'' @ ''.'' @ fileExt (f_name example_file) \<notin> set (storage_objects example_db)
    \<and> ''c1'' \<in> set (map cat_id (categories example_db))
    \<and> ''r2'' \<notin> set (map res_id (resources example_db))
    \<and> fst (handleUpload example_db (Some ''T'') (Some example_file)
          ''Sets'' ''Intro'' ''c1'' ''0.5'' ''r2'' 7) = Some Success
    \<and> (\<exists>new. resources (snd (handleUpload example_db (Some ''T'') (Some example_file)
               ''Sets'' ''Intro'' ''c1'' ''0.5'' ''r2'' 7)) = resources example_db @ [new]
          \<and> res_id new = ''r2'' \<and> uploaded_by new = ''T''
          \<and> view_count new = Some 0 \<and> download_count new = Some 0))"
proof -
  have student: "\<not> has_role example_db ''S'' teacher \<and> \<not> has_role example_db ''S'' admin"
    by (simp add: has_role_def example_db_def)
  have teacher: "has_role example_db ''T'' teacher"
    by (simp add: has_role_def example_db_def)
  have path: "''T'' @ ''/'' @ ''0.5'' @ ''.'' @ fileExt (f_name example_file)
                \<notin> set (storage_objects example_db)"
    by (simp add: fileExt_def example_file_def example_db_def)
  have cat: "''c1'' \<in> set (map cat_id (categories example_db))"
    by (simp add: example_db_def)
  have fresh: "''r2'' \<notin> set (map res_id (resources example_db))"
    by (simp add: example_db_def example_resource_def)
  show ?thesis
    using createResource_gate [OF refl, of example_db "''S''" "Some example_file" "''Sets''"
        "''Intro''" "''c1''" "''0.5''" "''r2''" 7 example_file]
      createResource_gate [OF refl, of example_db "''T''" "Some example_file" "''Sets''"
        "''Intro''" "''c1''" "''0.5''" "''r2''" 7 example_file]
      student teacher path cat fresh
    by blast
qed

section \<open>The resource listing\<close>

lemma includes_js_iff_sublist: "includes_js s t \<longleftrightarrow> sublist t s"
  by (induction s) (simp_all add: sublist_Cons_right)

lemma created_at_enrich: "created_at (enrich db r) = created_at r"
  by (simp add: enrich_def)

lemma truncate_enrich: "resources_row.truncate (enrich db r) = r"
  by (simp add: enrich_def resources_row.truncate_def)

lemma fetchResources_sorted:
  "sorted_wrt (\<lambda>a b. created_at b \<le> created_at a) (fetchResources db uid)"
proof -
  have "sorted (map (\<lambda>r. - created_at r) (sort_key (\<lambda>r. - created_at r) (resources db)))"
    by (rule sorted_sort_key)
  then have "sorted_wrt (\<lambda>a b. created_at b \<le> created_at a)
               (sort_key (\<lambda>r. - created_at r) (resources db))"
    by (simp add: sorted_map)
  then show ?thesis
    by (simp add: fetchResources_def sorted_wrt_map created_at_enrich)
qed

lemma single_category_name:
  "distinct (map cat_id cats) \<Longrightarrow>
   single (map cat_name (filter (\<lambda>c. cat_id c = cid) cats)) = Some n
     \<longleftrightarrow> (\<exists>cat \<in> set cats. cat_id cat = cid \<and> cat_name cat = n)"
proof (induction cats)
  case Nil
  then show ?case by simp
next
  case (Cons a cats)
  show ?case
  proof (cases "cat_id a = cid")
    case True
    with Cons.prems have "filter (\<lambda>c. cat_id c = cid) cats = []"
      by (auto simp: filter_empty_conv image_iff)
    with True Cons.prems show ?thesis by (auto simp: image_iff)
  next
    case False
    with Cons show ?thesis by auto
  qed
qed

lemma resolved_category:
  "distinct (map cat_id (categories db)) \<Longrightarrow>
   r_categories (enrich db r) = Some n
     \<longleftrightarrow> (\<exists>cat \<in> set (categories db). category_id r = Some (cat_id cat) \<and> cat_name cat = n)"
  by (cases "category_id r") (auto simp: enrich_def single_category_name)

lemma truncate_filter_enrich:
  "map resources_row.truncate (filter Q (map (enrich db) rows)) = filter (\<lambda>r. Q (enrich db r)) rows"
  by (induction rows) (simp_all add: truncate_enrich)

text \<open>
  Claim C5. For an authenticated request, whatever the stored resources and whatever
  the filter, the listing is ordered by creation time, newest first, and its rows
  are exactly the stored resources, each once, whose lower-cased title or lower-cased
  description has the lower-cased search text as a contiguous part and, unless the
  selected category is \<open>all\<close>, whose category reference resolves to a category of the
  selected name; each listed entry is its stored row with the joined names. With
  \<open>all\<close> selected no resource is dropped for its category. Category ids are unique,
  as the primary key of \<open>categories\<close> has it.
\<close>

theorem listResources_filters_in_order:
  "distinct (map cat_id (categories db)) \<Longrightarrow>
   sorted_wrt (\<lambda>a b. created_at b \<le> created_at a)
     (listResources toLowerCase db (Some u) searchQuery selectedCategory)
   \<and> mset (map resources_row.truncate
              (listResources toLowerCase db (Some u) searchQuery selectedCategory)) =
       filter_mset
         (\<lambda>r. (sublist (toLowerCase searchQuery) (toLowerCase (title r)) \<or>
                (\<exists>d. description r = Some d \<and>
                     sublist (toLowerCase searchQuery) (toLowerCase d)))
              \<and> (selectedCategory \<noteq> ''all'' \<longrightarrow>
                   (\<exists>cat \<in> set (categories db).
                      category_id r = Some (cat_id cat) \<and> cat_name cat = selectedCategory)))
         (mset (resources db))
   \<and> (\<forall>x \<in> set (listResources toLowerCase db (Some u) searchQuery selectedCategory).
         x = enrich db (resources_row.truncate x))"
proof -
  assume pk: "distinct (map cat_id (categories db))"
  let ?Q = "\<lambda>x. matchesSearch toLowerCase searchQuery x \<and> matchesCategory selectedCategory x"
  let ?P = "\<lambda>r. (sublist (toLowerCase searchQuery) (toLowerCase (title r)) \<or>
                (\<exists>d. description r = Some d \<and>
                     sublist (toLowerCase searchQuery) (toLowerCase d)))
              \<and> (selectedCategory \<noteq> ''all'' \<longrightarrow>
                   (\<exists>cat \<in> set (categories db).
                      category_id r = Some (cat_id cat) \<and> cat_name cat = selectedCategory))"
  let ?rows = "sort_key (\<lambda>r. - created_at r) (resources db)"
  have listing: "listResources toLowerCase db (Some u) searchQuery selectedCategory =
                   filter ?Q (map (enrich db) ?rows)"
    by (simp add: listResources_def filteredResources_def fetchResources_def)
  have search: "matchesSearch toLowerCase searchQuery (enrich db r) =
          (sublist (toLowerCase searchQuery) (toLowerCase (title r)) \<or>
                (\<exists>d. description r = Some d \<and>
                     sublist (toLowerCase searchQuery) (toLowerCase d)))" for r
    by (auto simp: matchesSearch_def includes_js_iff_sublist enrich_def split: option.splits)
  have category: "matchesCategory selectedCategory (enrich db r) =
          (selectedCategory \<noteq> ''all'' \<longrightarrow>
                   (\<exists>cat \<in> set (categories db).
                      category_id r = Some (cat_id cat) \<and> cat_name cat = selectedCategory))" for r
    using resolved_category [OF pk, of r selectedCategory]
    by (auto simp: matchesCategory_def)
  have pred: "?Q (enrich db r) = ?P r" for r
    by (simp only: search category)
  have sorted: "sorted_wrt (\<lambda>a b. created_at b \<le> created_at a)
     (listResources toLowerCase db (Some u) searchQuery selectedCategory)"
    unfolding listResources_def filteredResources_def
    by (rule sorted_wrt_filter) (rule fetchResources_sorted)
  have "map resources_row.truncate
          (listResources toLowerCase db (Some u) searchQuery selectedCategory) = filter ?P ?rows"
    unfolding listing truncate_filter_enrich pred ..
  then have rows: "mset (map resources_row.truncate
              (listResources toLowerCase db (Some u) searchQuery selectedCategory)) =
       filter_mset ?P (mset (resources db))"
    by simp
  have enriched: "\<forall>x \<in> set (listResources toLowerCase db (Some u) searchQuery selectedCategory).
         x = enrich db (resources_row.truncate x)"
    unfolding listing by (auto simp: truncate_enrich)
  from sorted rows enriched show ?thesis by blast
qed


text \<open>
  On the three-row catalog the search text \<open>ALGEBRA\<close> drops the biology resource
  and keeps the two others, newest first; selecting Mathematics keeps only the one in
  that category.
\<close>

lemma listing_fetch:
  "fetchResources listing_db (Some ''S'') =
     [enrich listing_db biology, enrich listing_db geometry, enrich listing_db algebra]"
proof -
  have "sort_key (\<lambda>r. - created_at r) [algebra, biology, geometry] = [biology, geometry, algebra]"
    by (simp add: algebra_def biology_def geometry_def)
  then show ?thesis
    by (simp add: fetchResources_def listing_db_def)
qed

lemma listing_search:
  "matchesSearch ascii_toLowerCase ''ALGEBRA'' (enrich listing_db algebra)
   \<and> \<not> matchesSearch ascii_toLowerCase ''ALGEBRA'' (enrich listing_db biology)
   \<and> matchesSearch ascii_toLowerCase ''ALGEBRA'' (enrich listing_db geometry)"
proof -
  have q: "ascii_toLowerCase ''ALGEBRA'' = ''algebra''"
    by (simp add: ascii_toLowerCase_def ascii_toLowerCase_char_def)
  have a: "ascii_toLowerCase ''Algebra Basics'' = ''algebra basics''"
    by (simp add: ascii_toLowerCase_def ascii_toLowerCase_char_def)
  have b: "ascii_toLowerCase ''Cell Biology'' = ''cell biology''"
    by (simp add: ascii_toLowerCase_def ascii_toLowerCase_char_def)
  have g: "ascii_toLowerCase ''Geometry'' = ''geometry''"
    by (simp add: ascii_toLowerCase_def ascii_toLowerCase_char_def)
  have gd: "ascii_toLowerCase ''Uses ALGEBRA'' = ''uses algebra''"
    by (simp add: ascii_toLowerCase_def ascii_toLowerCase_char_def)
  have 1: "includes_js ''algebra basics'' ''algebra''" by simp
  have 2: "\<not> includes_js ''cell biology'' ''algebra''" by simp
  have 3: "includes_js ''uses algebra'' ''algebra''" by simp
  show ?thesis
    using 1 2 3
    by (simp add: matchesSearch_def enrich_def algebra_def biology_def geometry_def q a b g gd)
qed

lemma listing_categories:
  "r_categories (enrich listing_db algebra) = Some ''Mathematics''
   \<and> r_categories (enrich listing_db biology) = Some ''Science''
   \<and> r_categories (enrich listing_db geometry) = None"
  by (simp add: enrich_def listing_db_def algebra_def biology_def geometry_def)

theorem listResources_witness:
  "distinct (map cat_id (categories listing_db))
   \<and> listResources ascii_toLowerCase listing_db (Some ''S'') ''ALGEBRA'' ''all''
       = [enrich listing_db geometry, enrich listing_db algebra]
   \<and> listResources ascii_toLowerCase listing_db (Some ''S'') ''ALGEBRA'' ''Mathematics''
       = [enrich listing_db algebra]
   \<and> mset (map resources_row.truncate
        (listResources ascii_toLowerCase listing_db (Some ''S'') ''ALGEBRA'' ''all''))
       = {#geometry, algebra#}
   \<and> sorted_wrt (\<lambda>a b. created_at b \<le> created_at a)
        (listResources ascii_toLowerCase listing_db (Some ''S'') ''ALGEBRA'' ''all'')"
proof -
  have pk: "distinct (map cat_id (categories listing_db))"
    by (simp add: listing_db_def)
  have all: "listResources ascii_toLowerCase listing_db (Some ''S'') ''ALGEBRA'' ''all''
       = [enrich listing_db geometry, enrich listing_db algebra]"
    by (simp add: listResources_def filteredResources_def listing_fetch listing_search
        matchesCategory_def)
  have maths: "listResources ascii_toLowerCase listing_db (Some ''S'') ''ALGEBRA'' ''Mathematics''
       = [enrich listing_db algebra]"
    by (simp add: listResources_def filteredResources_def listing_fetch listing_search
        matchesCategory_def listing_categories)
  show ?thesis
    using listResources_filters_in_order
        [OF pk, of ascii_toLowerCase "''S''" "''ALGEBRA''" "''all''"]
      pk all maths
    by (simp add: truncate_enrich)
qed

section \<open>Recording a download\<close>

lemma update_resources_outcome:
  "ignore_error db (update_resources db uid now vals whr) = db
   \<or> ignore_error db (update_resources db uid now vals whr) =
       db\<lparr>resources := map (\<lambda>r. if whr r \<and> owner_or_admin db uid r
                                   then (vals r)\<lparr>updated_at := now\<rparr> else r) (resources db)\<rparr>"
  by (simp add: update_resources_def ignore_error_def Let_def update_updated_at_column_def)

text \<open>
  Claim C10. \<open>handleDownload\<close> inserts no view event and leaves every
  \<open>view_count\<close> as it was; a catalog row with another id than the targeted resource
  is unchanged, no row is added or removed, and a row that does change differs from
  its old value only in \<open>download_count\<close>, the one column the handler writes, and in
  \<open>updated_at\<close>, which the update trigger stamps. The other tables and the bucket are
  untouched.
\<close>

theorem handleDownload_frame:
  "db' = handleDownload db usr now resource \<Longrightarrow>
   resource_views db' = resource_views db
   \<and> map view_count (resources db') = map view_count (resources db)
   \<and> list_all2 (\<lambda>r r'. (res_id r \<noteq> res_id resource \<longrightarrow> r' = r)
                 \<and> (r' = r \<or> r' = r\<lparr>download_count := Some (js_number (download_count resource) + 1),
                                   updated_at := now\<rparr>))
        (resources db) (resources db')
   \<and> user_roles db' = user_roles db \<and> profiles db' = profiles db
   \<and> categories db' = categories db \<and> storage_objects db' = storage_objects db"
proof -
  assume eq: "db' = handleDownload db usr now resource"
  let ?vals = "\<lambda>r. r\<lparr>download_count := Some (js_number (download_count resource) + 1)\<rparr>"
  let ?whr = "\<lambda>r. res_id r = res_id resource"
  from update_resources_outcome [of db usr now ?vals ?whr]
  consider (rejected) "db' = db"
    | (updated) "db' = db\<lparr>resources :=
         map (\<lambda>r. if ?whr r \<and> owner_or_admin db usr r then (?vals r)\<lparr>updated_at := now\<rparr> else r)
           (resources db)\<rparr>"
    unfolding eq handleDownload_def by blast
  then show ?thesis
  proof cases
    case rejected
    then show ?thesis by (simp add: list_all2_same)
  next
    case updated
    then show ?thesis by (simp add: list_all2_map2 list_all2_same)
  qed
qed

theorem handleDownload_frame_witness:
  "resource_views (handleDownload example_db (Some ''T'') 20 example_snapshot) = []
   \<and> resources (handleDownload example_db (Some ''T'') 20 example_snapshot)
       = [example_resource\<lparr>download_count := Some 1, updated_at := 20\<rparr>]
   \<and> resources (handleDownload example_db (Some ''S'') 20 example_snapshot) = [example_resource]"
  using handleDownload_frame [OF refl, of example_db "Some ''T''" 20 example_snapshot]
    handleDownload_frame [OF refl, of example_db "Some ''S''" 20 example_snapshot]
  by (simp add: handleDownload_def policy_defs statement_defs example_defs)

section \<open>Route protection\<close>

text \<open>
  Claim C8, as amended. Once the session has been resolved, a request for a gated
  route (\<open>upload\<close> and \<open>analytics\<close> for teacher or admin, \<open>users\<close> for admin) by an
  unauthenticated visitor is redirected to \<open>/auth\<close>, and one by an authenticated
  principal whose role is present and not in the route's role set is redirected to
  \<open>/dashboard\<close>; no error page is involved.
\<close>

theorem gated_route_redirects:
  "\<not> loading a \<Longrightarrow>
   (user a = None \<longrightarrow>
      App a route_upload = Navigate ''/auth'' \<and> App a route_analytics = Navigate ''/auth''
      \<and> App a route_users = Navigate ''/auth'')
   \<and> (\<forall>u r. user a = Some u \<and> userRole a = Some r \<and> r \<noteq> [] \<longrightarrow>
        (r \<notin> {''teacher'', ''admin''} \<longrightarrow>
           App a route_upload = Navigate ''/dashboard''
           \<and> App a route_analytics = Navigate ''/dashboard'')
        \<and> (r \<notin> {''admin''} \<longrightarrow> App a route_users = Navigate ''/dashboard''))"
  by (auto simp: App_def ProtectedRoute_def)

theorem gated_route_redirects_witness:
  "App \<lparr>user = None, userRole = None, loading = False\<rparr> route_users = Navigate ''/auth''
   \<and> App \<lparr>user = Some ''S'', userRole = Some ''student'', loading = False\<rparr> route_upload
       = Navigate ''/dashboard''
   \<and> App \<lparr>user = Some ''T'', userRole = Some ''teacher'', loading = False\<rparr> route_users
       = Navigate ''/dashboard''"
  using gated_route_redirects [of "\<lparr>user = None, userRole = None, loading = False\<rparr>"]
    gated_route_redirects [of "\<lparr>user = Some ''S'', userRole = Some ''student'', loading = False\<rparr>"]
    gated_route_redirects [of "\<lparr>user = Some ''T'', userRole = Some ''teacher'', loading = False\<rparr>"]
  by simp

text \<open>
  Claim C8, as stated, fails. An authenticated principal for whom no role has been
  loaded has no role in the role set of \<open>upload\<close>, yet is not redirected: the guard
  \<open>requireRole && userRole && ...\<close> lets the request through and the page is
  rendered.
\<close>

theorem gated_route_without_role_counterexample:
  "App \<lparr>user = Some ''S'', userRole = None, loading = False\<rparr> route_upload = Children Upload"
  by (simp add: App_def ProtectedRoute_def)

text \<open>
  Claim C9. For an authenticated user whose role is \<open>null\<close>, \<open>ProtectedRoute\<close> with
  a list of required roles renders its children and does not redirect, whatever the
  list: the role restriction applies only when a role value is present.
\<close>

theorem null_role_renders_children:
  "\<not> loading a \<Longrightarrow> user a = Some u \<Longrightarrow> userRole a = None \<Longrightarrow>
   ProtectedRoute a children (Some required) = Children children"
  by (simp add: ProtectedRoute_def)

theorem null_role_renders_children_witness:
  "ProtectedRoute \<lparr>user = Some ''S'', userRole = None, loading = False\<rparr> Users (Some [''admin''])
     = Children Users
   \<and> App \<lparr>user = Some ''S'', userRole = None, loading = False\<rparr> route_users = Children Users"
  using null_role_renders_children
    [of "\<lparr>user = Some ''S'', userRole = None, loading = False\<rparr>" "''S''" Users "[''admin'']"]
  by (simp add: App_def)

section \<open>Recording a view\<close>

lemma track_view_frame:
  "resources (track_view db usr new_id now resource) = resources db
   \<and> user_roles (track_view db usr new_id now resource) = user_roles db"
  by (simp add: track_view_def ignore_error_def insert_resource_views_def Let_def)

lemma owner_or_admin_cong:
  "user_roles db' = user_roles db \<Longrightarrow>
   owner_or_admin db' usr (r :: resources_row) = owner_or_admin db usr r"
  by (simp add: owner_or_admin_def has_role_def split: option.splits)

lemma track_view_appends:
  "res_id resource \<in> set (map res_id (resources db)) \<Longrightarrow>
   new_id \<notin> set (map rv_id (resource_views db)) \<Longrightarrow>
   resource_views (track_view db (Some u) new_id now resource) =
     resource_views db @ [\<lparr>rv_id = new_id, rv_resource_id = res_id resource,
                            rv_user_id = Some u, viewed_at = now\<rparr>]"
  by (simp add: track_view_def ignore_error_def insert_resource_views_def Let_def
      users_can_create_own_views_def)

lemma increment_view_count_outcome:
  "increment_view_count db usr now resource = db
   \<or> increment_view_count db usr now resource =
       db\<lparr>resources :=
            map (\<lambda>r. if res_id r = res_id resource \<and> owner_or_admin db usr r
                      then r\<lparr>view_count := Some (js_number (view_count resource) + 1),
                             updated_at := now\<rparr>
                      else r) (resources db)\<rparr>"
  using update_resources_outcome
    [of db usr now "\<lambda>r. r\<lparr>view_count := Some (js_number (view_count resource) + 1)\<rparr>"
       "\<lambda>r. res_id r = res_id resource"]
  by (simp add: increment_view_count_def)

lemma increment_view_count_views:
  "resource_views (increment_view_count db usr now resource) = resource_views db"
  by (rule disjE [OF increment_view_count_outcome [of db usr now resource]]) simp_all

text \<open>
  Whoever views, the event is recorded: one row with the viewer as \<open>user_id\<close>.
\<close>

lemma handleView_appends_event:
  "res_id resource \<in> set (map res_id (resources db)) \<Longrightarrow>
   new_id \<notin> set (map rv_id (resource_views db)) \<Longrightarrow>
   resource_views (handleView db (Some u) new_id t_insert t_update resource) =
     resource_views db @ [\<lparr>rv_id = new_id, rv_resource_id = res_id resource,
                            rv_user_id = Some u, viewed_at = t_insert\<rparr>]"
  by (simp add: handleView_def increment_view_count_views track_view_appends)

lemma increment_hidden_rows:
  assumes "\<forall>r \<in> set (resources db). res_id r = res_id resource \<longrightarrow> \<not> owner_or_admin db usr r"
  shows "resources (increment_view_count db usr now resource) = resources db"
proof -
  have "map (\<lambda>r. if res_id r = res_id resource \<and> owner_or_admin db usr r
                      then r\<lparr>view_count := Some (js_number (view_count resource) + 1),
                             updated_at := now\<rparr>
                      else r) (resources db) = resources db"
    using assms by (intro map_idI) auto
  with increment_view_count_outcome [of db usr now resource] show ?thesis
    by (elim disjE) simp_all
qed

text \<open>
  A viewer who neither owns the resource nor is an admin leaves the catalog as it was.
\<close>

lemma handleView_neither_owner_nor_admin:
  assumes "\<forall>r \<in> set (resources db). res_id r = res_id resource \<longrightarrow> \<not> owner_or_admin db usr r"
  shows "resources (handleView db usr new_id t_insert t_update resource) = resources db"
proof -
  let ?db1 = "track_view db usr new_id t_insert resource"
  have "\<forall>r \<in> set (resources ?db1). res_id r = res_id resource \<longrightarrow> \<not> owner_or_admin ?db1 usr r"
    using assms track_view_frame [of db usr new_id t_insert resource]
      owner_or_admin_cong [of ?db1 db usr]
    by simp
  then have "resources (increment_view_count ?db1 usr t_update resource) = resources ?db1"
    by (rule increment_hidden_rows)
  then show ?thesis
    by (simp add: handleView_def track_view_frame)
qed

lemma increment_view_count_accepted:
  assumes own: "\<forall>r \<in> set (resources db). res_id r = res_id resource \<longrightarrow> owner_or_admin db usr r"
    and range: "\<forall>r \<in> set (resources db). int4 (view_count r) \<and> int4 (download_count r)"
    and new: "int4 (Some (js_number (view_count resource) + 1))"
  shows "resources (increment_view_count db usr now resource) =
           map (\<lambda>r. if res_id r = res_id resource
                     then r\<lparr>view_count := Some (js_number (view_count resource) + 1),
                            updated_at := now\<rparr>
                     else r) (resources db)"
proof -
  let ?upd = "\<lambda>r. if res_id r = res_id resource \<and> owner_or_admin db usr r
                 then update_updated_at_column now
                        (r\<lparr>view_count := Some (js_number (view_count resource) + 1)\<rparr>)
                 else r"
  have ok: "list_all (\<lambda>r. int4 (view_count r) \<and> int4 (download_count r)) (map ?upd (resources db))"
    using range new by (auto simp: list_all_iff update_updated_at_column_def)
  have same: "map ?upd (resources db) =
           map (\<lambda>r. if res_id r = res_id resource
                     then r\<lparr>view_count := Some (js_number (view_count resource) + 1),
                            updated_at := now\<rparr>
                     else r) (resources db)"
    using own by (auto simp: update_updated_at_column_def)
  show ?thesis
    unfolding increment_view_count_def update_resources_def Let_def
    using ok by (simp add: ignore_error_def same)
qed

text \<open>
  For the owner and for an admin the counter of the viewed resource becomes the
  snapshot's count plus one.
\<close>

lemma handleView_counts_for_owner_or_admin:
  assumes own: "\<forall>r \<in> set (resources db). res_id r = res_id resource \<longrightarrow> owner_or_admin db usr r"
    and range: "\<forall>r \<in> set (resources db). int4 (view_count r) \<and> int4 (download_count r)"
    and new: "int4 (Some (js_number (view_count resource) + 1))"
  shows "resources (handleView db usr new_id t_insert t_update resource) =
           map (\<lambda>r. if res_id r = res_id resource
                     then r\<lparr>view_count := Some (js_number (view_count resource) + 1),
                            updated_at := t_update\<rparr>
                     else r) (resources db)"
proof -
  let ?db1 = "track_view db usr new_id t_insert resource"
  note frame = track_view_frame [of db usr new_id t_insert resource]
  have own1: "\<forall>r \<in> set (resources ?db1). res_id r = res_id resource \<longrightarrow> owner_or_admin ?db1 usr r"
    using own frame owner_or_admin_cong [of ?db1 db usr] by simp
  have range1: "\<forall>r \<in> set (resources ?db1). int4 (view_count r) \<and> int4 (download_count r)"
    using range frame by simp
  from increment_view_count_accepted [OF own1 range1 new, of t_update] frame
  show ?thesis by (simp add: handleView_def)
qed

text \<open>
  Claim C4, evaluated for a student. \<open>S\<close> views the resource of \<open>T\<close> from a page
  that holds the current row. The view event with \<open>user_id = S\<close> is appended, but
  the row is hidden from the student's update by the policy
  \<open>"Teachers can update own resources"\<close>: the statement touches no row and
  \<open>view_count\<close> stays 0, where the claim asks for 1.
\<close>

theorem handleView_student_not_counted:
  "\<not> owner_or_admin example_db (Some ''S'') example_resource
   \<and> handleView example_db (Some ''S'') ''v1'' 5 6 example_snapshot =
       example_db\<lparr>resource_views :=
         [\<lparr>rv_id = ''v1'', rv_resource_id = ''r1'', rv_user_id = Some ''S'', viewed_at = 5\<rparr>]\<rparr>
   \<and> view_count_of example_db ''r1'' = Some (Some 0)
   \<and> view_count_of (handleView example_db (Some ''S'') ''v1'' 5 6 example_snapshot) ''r1''
       = Some (Some 0)"
proof -
  have hidden: "\<not> owner_or_admin example_db (Some ''S'') example_resource"
    by (simp add: owner_or_admin_def has_role_def example_db_def example_resource_def)
  have run: "handleView example_db (Some ''S'') ''v1'' 5 6 example_snapshot =
       example_db\<lparr>resource_views :=
         [\<lparr>rv_id = ''v1'', rv_resource_id = ''r1'', rv_user_id = Some ''S'', viewed_at = 5\<rparr>]\<rparr>"
    by (simp add: handleView_def track_view_def increment_view_count_def policy_defs
        statement_defs example_defs)
  have before: "view_count_of example_db ''r1'' = Some (Some 0)"
    by (simp add: view_count_of_def example_db_def example_resource_def)
  have after: "view_count_of (example_db\<lparr>resource_views :=
         [\<lparr>rv_id = ''v1'', rv_resource_id = ''r1'', rv_user_id = Some ''S'', viewed_at = 5\<rparr>]\<rparr>) ''r1''
       = Some (Some 0)"
    by (simp add: view_count_of_def example_db_def example_resource_def)
  show ?thesis
    unfolding run using hidden before after by simp
qed

section \<open>Views in flight at once\<close>

text \<open>
  Every statement of every invocation writes the count of its own snapshot plus one.
  When all invocations hold a snapshot with the same count \<open>k\<close>, each stored count
  is, after any schedule, its old value or \<open>k + 1\<close>: never \<open>k + N\<close> for \<open>N > 1\<close>.
\<close>

lemma increment_view_count_counts:
  "list_all2 (\<lambda>r r'. view_count r' = view_count r
                       \<or> view_count r' = Some (js_number (view_count resource) + 1))
     (resources db) (resources (increment_view_count db usr now resource))"
  using increment_view_count_outcome [of db usr now resource]
  by (elim disjE) (simp_all add: list_all2_same list_all2_map2)

lemma run_statement_counts:
  assumes "\<forall>inv \<in> set invs. js_number (view_count (inv_resource inv)) = k"
  shows "list_all2 (\<lambda>r r'. view_count r' = view_count r \<or> view_count r' = Some (k + 1))
           (resources db) (resources (run_statement invs db st))"
proof (cases st)
  case (track i)
  then show ?thesis
    by (simp add: run_statement_def track_view_frame list_all2_same)
next
  case (increment i)
  show ?thesis
  proof (cases "i < length invs")
    case True
    then have "js_number (view_count (inv_resource (invs ! i))) = k"
      using assms by simp
    with increment_view_count_counts
      [of "inv_resource (invs ! i)" db "inv_user (invs ! i)" "inv_t_update (invs ! i)"]
    show ?thesis
      using True increment by (simp add: run_statement_def)
  next
    case False
    then show ?thesis
      using increment by (simp add: run_statement_def list_all2_same)
  qed
qed

lemma run_schedule_counts:
  assumes "\<forall>inv \<in> set invs. js_number (view_count (inv_resource inv)) = k"
  shows "list_all2 (\<lambda>r r'. view_count r' = view_count r \<or> view_count r' = Some (k + 1))
           (resources db) (resources (run_schedule invs schedule db))"
proof (induction schedule arbitrary: db)
  case Nil
  then show ?case by (simp add: run_schedule_def list_all2_same)
next
  case (Cons st schedule)
  let ?P = "\<lambda>r r'. view_count r' = view_count r \<or> view_count r' = Some (k + 1)"
  have step: "list_all2 ?P (resources db) (resources (run_statement invs db st))"
    using assms by (rule run_statement_counts)
  have rest: "list_all2 ?P (resources (run_statement invs db st))
                (resources (run_schedule invs schedule (run_statement invs db st)))"
    by (rule Cons.IH)
  have "list_all2 ?P (resources db)
          (resources (run_schedule invs schedule (run_statement invs db st)))"
    using step rest by (rule list_all2_trans [rotated]) auto
  then show ?case by (simp add: run_schedule_def)
qed

lemma schedule_is_interleaving: "interleaving 2 [track 0, track 1, increment 0, increment 1]"
  by (simp add: interleaving_def lessThan_Suc numeral_2_eq_2 nth_Cons' less_Suc_eq insert_commute)

lemma concurrent_run:
  "run_schedule example_invocations [track 0, track 1, increment 0, increment 1] example_db =
     example_db\<lparr>resources := [example_resource\<lparr>view_count := Some 1, updated_at := 13\<rparr>],
                 resource_views :=
                   [\<lparr>rv_id = ''v1'', rv_resource_id = ''r1'', rv_user_id = Some ''T'', viewed_at = 10\<rparr>,
                    \<lparr>rv_id = ''v2'', rv_resource_id = ''r1'', rv_user_id = Some ''A'', viewed_at = 11\<rparr>]\<rparr>"
  by (simp add: run_schedule_def run_statement_def example_invocations_def track_view_def
      increment_view_count_def policy_defs statement_defs example_defs)

text \<open>
  Claim C2, evaluated for two invocations. The owner \<open>T\<close> and the admin \<open>A\<close> view
  the same resource from pages that both hold the snapshot with \<open>view_count = 0\<close>;
  the two inserts run first, then the two updates. Both events are recorded, and
  both updates write 1: the count rises by 1, where the claim asks for 2.
\<close>

theorem concurrent_views_counted_once:
  "view_count_of example_db ''r1'' = Some (Some 0)
   \<and> view_count_of
        (run_schedule example_invocations [track 0, track 1, increment 0, increment 1] example_db)
        ''r1'' = Some (Some 1)
   \<and> map rv_user_id (resource_views
        (run_schedule example_invocations [track 0, track 1, increment 0, increment 1] example_db))
       = [Some ''T'', Some ''A'']"
proof -
  have "view_count_of example_db ''r1'' = Some (Some 0)"
    by (simp add: view_count_of_def example_db_def example_resource_def)
  then show ?thesis
    unfolding concurrent_run
    by (simp add: view_count_of_def example_resource_def)
qed

section \<open>The view trend\<close>

lemma map_of_bump:
  "map_of (bump k kvs) d =
     (if d = k then Some (case map_of kvs k of None \<Rightarrow> 1 | Some n \<Rightarrow> n + 1) else map_of kvs d)"
  by (induction k kvs rule: bump.induct) auto

lemma keys_bump: "fst ` set (bump k kvs) = insert k (fst ` set kvs)"
  by (induction k kvs rule: bump.induct) auto

lemma distinct_bump: "distinct (map fst kvs) \<Longrightarrow> distinct (map fst (bump k kvs))"
  by (induction k kvs rule: bump.induct) (auto simp: keys_bump)

lemma distinct_foldl_bump:
  "distinct (map fst acc) \<Longrightarrow> distinct (map fst (foldl (\<lambda>trends v. bump (f v) trends) acc vs))"
  by (induction vs arbitrary: acc) (simp_all add: distinct_bump)

lemma map_of_foldl_bump:
  "map_of (foldl (\<lambda>trends v. bump (f v) trends) acc vs) d =
     (case map_of acc d of
        None \<Rightarrow> if length (filter (\<lambda>v. f v = d) vs) = 0 then None
                else Some (int (length (filter (\<lambda>v. f v = d) vs)))
      | Some m \<Rightarrow> Some (m + int (length (filter (\<lambda>v. f v = d) vs))))"
proof (induction vs arbitrary: acc)
  case Nil
  then show ?case by (simp split: option.splits)
next
  case (Cons v vs)
  show ?case
    by (simp add: Cons.IH map_of_bump split: option.splits)
qed

lemma viewData_visible:
  "viewData db uid now =
     (if teacher_or_admin db uid
      then filter (\<lambda>view. now - 7 * 24 * 60 * 60 * 1000 \<le> viewed_at view) (resource_views db)
      else [])"
  by (cases uid)
    (simp_all add: viewData_def select_resource_views_def teacher_or_admin_def auth_has_role_def)

text \<open>
  Claim C6, as amended. For a requester holding the teacher or the admin role, the
  view trend has one bucket per calendar date on which a view event at or after the
  query time minus 7 times 24 hours falls, and no other bucket; a bucket's count is
  the number of those events on its date. Any other requester is shown no view event
  and gets no bucket. The window is 168 hours long and not aligned to calendar days:
  it can reach more than seven dates, and of the oldest date it holds only the events
  from the cutoff on.
\<close>

theorem viewTrends_window_buckets:
  "distinct (map fst (viewTrends toLocaleDateString db uid now))
   \<and> (\<forall>d. map_of (viewTrends toLocaleDateString db uid now) d =
            (if teacher_or_admin db uid \<and> window_events_on_date toLocaleDateString db now d \<noteq> 0
             then Some (int (window_events_on_date toLocaleDateString db now d)) else None))"
proof -
  let ?f = "\<lambda>v. toLocaleDateString (viewed_at v)"
  let ?vd = "viewData db uid now"
  have trends: "viewTrends toLocaleDateString db uid now =
                  foldl (\<lambda>trends v. bump (?f v) trends) [] ?vd"
    by (simp add: viewTrends_def)
  have count: "length (filter (\<lambda>v. ?f v = d) ?vd) =
                 (if teacher_or_admin db uid
                  then window_events_on_date toLocaleDateString db now d else 0)" for d
    by (simp add: viewData_visible window_events_on_date_def)
  have dist: "distinct (map fst (viewTrends toLocaleDateString db uid now))"
    unfolding trends by (rule distinct_foldl_bump) simp
  have lookup: "map_of (viewTrends toLocaleDateString db uid now) d =
            (if teacher_or_admin db uid \<and> window_events_on_date toLocaleDateString db now d \<noteq> 0
             then Some (int (window_events_on_date toLocaleDateString db now d)) else None)" for d
    unfolding trends map_of_foldl_bump count by simp
  from dist lookup show ?thesis by blast
qed

lemma ten_days_views:
  "viewTrends utc_date ten_days_db (Some ''T'') (10 * 86400000 + 12 * 3600000) =
     [(3, 1), (4, 1), (5, 1), (6, 1), (7, 1), (8, 1), (9, 1), (10, 1)]"
  by (simp add: viewTrends_def viewData_def select_resource_views_def teacher_or_admin_def
      auth_has_role_def has_role_def ten_days_db_def example_db_def view_at_def
      utc_date_def)

text \<open>
  Claim C6, as stated, fails. A browser in UTC queries at noon of day 10 over events
  spanning the days 3 to 10: the trend has eight buckets, not the seven most recent
  dates; and the bucket of day 3 counts 1 although two events fall on that date,
  since the one at 01:00 lies before the start of the window.
\<close>

theorem viewTrends_eight_buckets_counterexample:
  "length (viewTrends utc_date ten_days_db (Some ''T'') (10 * 86400000 + 12 * 3600000)) = 8
   \<and> map_of (viewTrends utc_date ten_days_db (Some ''T'') (10 * 86400000 + 12 * 3600000)) 3
       = Some 1
   \<and> events_on_date utc_date ten_days_db 3 = 2"
proof -
  have "events_on_date utc_date ten_days_db 3 = 2"
    by (simp add: events_on_date_def ten_days_db_def view_at_def utc_date_def)
  then show ?thesis
    unfolding ten_days_views by simp
qed

theorem viewTrends_window_buckets_witness:
  "teacher_or_admin ten_days_db (Some ''T'')
   \<and> window_events_on_date utc_date ten_days_db (10 * 86400000 + 12 * 3600000) 3 = 1
   \<and> map_of (viewTrends utc_date ten_days_db (Some ''T'') (10 * 86400000 + 12 * 3600000)) 3
       = Some 1
   \<and> window_events_on_date utc_date ten_days_db (10 * 86400000 + 12 * 3600000) 2 = 0
   \<and> map_of (viewTrends utc_date ten_days_db (Some ''T'') (10 * 86400000 + 12 * 3600000)) 2
       = None
   \<and> \<not> teacher_or_admin ten_days_db (Some ''S'')
   \<and> map_of (viewTrends utc_date ten_days_db (Some ''S'') (10 * 86400000 + 12 * 3600000)) 3
       = None
   \<and> distinct (map fst
        (viewTrends utc_date ten_days_db (Some ''T'') (10 * 86400000 + 12 * 3600000)))"
proof -
  have role: "teacher_or_admin ten_days_db (Some ''T'')"
    by (simp add: teacher_or_admin_def auth_has_role_def has_role_def ten_days_db_def
        example_db_def)
  have student: "\<not> teacher_or_admin ten_days_db (Some ''S'')"
    by (simp add: teacher_or_admin_def auth_has_role_def has_role_def ten_days_db_def
        example_db_def)
  have w3: "window_events_on_date utc_date ten_days_db (10 * 86400000 + 12 * 3600000) 3 = 1"
    by (simp add: window_events_on_date_def ten_days_db_def view_at_def utc_date_def)
  have w2: "window_events_on_date utc_date ten_days_db (10 * 86400000 + 12 * 3600000) 2 = 0"
    by (simp add: window_events_on_date_def ten_days_db_def view_at_def utc_date_def)
  note trend = viewTrends_window_buckets
    [of utc_date ten_days_db "Some ''T''" "10 * 86400000 + 12 * 3600000"]
  note none = viewTrends_window_buckets
    [of utc_date ten_days_db "Some ''S''" "10 * 86400000 + 12 * 3600000"]
  from trend role have look:
    "map_of (viewTrends utc_date ten_days_db (Some ''T'') (10 * 86400000 + 12 * 3600000)) d =
       (if window_events_on_date utc_date ten_days_db (10 * 86400000 + 12 * 3600000) d \<noteq> 0
        then Some (int (window_events_on_date utc_date ten_days_db
                          (10 * 86400000 + 12 * 3600000) d))
        else None)"
    for d by simp
  from none student
  have hidden:
    "map_of (viewTrends utc_date ten_days_db (Some ''S'') (10 * 86400000 + 12 * 3600000)) 3 = None"
    by simp
  from trend have dist:
    "distinct (map fst
       (viewTrends utc_date ten_days_db (Some ''T'') (10 * 86400000 + 12 * 3600000)))"
    by blast
  show ?thesis
    using role student w3 w2 look [of 3] look [of 2] hidden dist by simp
qed

section \<open>Deleting a category\<close>

lemma category_label_no_category: "category_id r = None \<Longrightarrow> category_label (enrich db r) = ''Uncategorized''"
  by (simp add: category_label_def enrich_def)

text \<open>
  Claim C7, as amended. When a teacher or admin deletes an existing category, no
  resource is deleted or added; a resource that referenced the category keeps all
  its fields except \<open>category_id\<close>, which becomes absent, and \<open>updated_at\<close>, which
  the update trigger sets to the time of the deletion, and it is displayed as
  \<open>Uncategorized\<close>; every other resource is unchanged.
\<close>

theorem delete_category_sets_null:
  "teacher_or_admin db (Some u) \<Longrightarrow> cid \<in> set (map cat_id (categories db)) \<Longrightarrow>
   db' = delete_category db (Some u) now cid \<Longrightarrow>
   cid \<notin> set (map cat_id (categories db'))
   \<and> list_all2 (\<lambda>r r'. if category_id r = Some cid
                        then r' = r\<lparr>category_id := None, updated_at := now\<rparr>
                             \<and> category_label (enrich db' r') = ''Uncategorized''
                        else r' = r)
        (resources db) (resources db')"
  by (auto simp: delete_category_def on_delete_set_null_def update_updated_at_column_def
      list_all2_map2 list_all2_same category_label_no_category)

text \<open>
  Claim C7, as stated, fails. The resource that referenced the deleted category
  loses the reference and also has a new \<open>updated_at\<close>: it is not its old row with
  only the category reference cleared.
\<close>

theorem delete_category_updated_at_counterexample:
  "category_id example_resource = Some ''c1''
   \<and> resources (delete_category example_db (Some ''T'') 9 ''c1'')
        = [example_resource\<lparr>category_id := None, updated_at := 9\<rparr>]
   \<and> example_resource\<lparr>category_id := None, updated_at := 9\<rparr>
        \<noteq> example_resource\<lparr>category_id := None\<rparr>"
  by (simp add: delete_category_def on_delete_set_null_def update_updated_at_column_def
      teacher_or_admin_def auth_has_role_def has_role_def example_db_def example_resource_def)

theorem delete_category_sets_null_witness:
  "teacher_or_admin example_db (Some ''A'')
   \<and> ''c1'' \<in> set (map cat_id (categories example_db))
   \<and> category_id example_resource = Some ''c1''
   \<and> resources (delete_category example_db (Some ''A'') 9 ''c1'')
        = [example_resource\<lparr>category_id := None, updated_at := 9\<rparr>]
   \<and> category_label (enrich (delete_category example_db (Some ''A'') 9 ''c1'')
        (example_resource\<lparr>category_id := None, updated_at := 9\<rparr>)) = ''Uncategorized''"
proof -
  have role: "teacher_or_admin example_db (Some ''A'')"
    by (simp add: teacher_or_admin_def auth_has_role_def has_role_def example_db_def)
  have cat: "''c1'' \<in> set (map cat_id (categories example_db))"
    by (simp add: example_db_def)
  have ref: "category_id example_resource = Some ''c1''"
    by (simp add: example_resource_def)
  have rows: "resources example_db = [example_resource]"
    by (simp add: example_db_def)
  show ?thesis
    using delete_category_sets_null [OF role cat refl, of 9] role cat ref
    by (simp add: rows list_all2_Cons1)
qed

end
